theory Spec2Isabelle
  imports Complex_Main "HOL-Library.AList"
begin

section \<open>Python values read from an image's tag table\<close>

text \<open>
  The values that the tag table of an image holds are dynamically typed. The model keeps
  the shapes the program distinguishes: \<open>None\<close>, integers, floats, strings, tuples and
  the nested dictionary of the GPS sub-block (keyed by numeric tag id, in iteration order).
  Python floats are idealised as reals: rounding, overflow and NaN are not modelled, so
  every statement about a coordinate is a statement of exact arithmetic. A rational of
  the imaging library that is not a tuple is a plain number and is represented by
  \<open>PFloat\<close> of its value.
\<close>

datatype pyval =
    PNone
  | PInt int
  | PFloat real
  | PStr string
  | PTuple "pyval list"
  | PDict "(int \<times> pyval) list"

datatype error =
    ValueError string
  | TypeError
  | KeyError
  | IndexError
  | AttributeError
  | ZeroDivisionError
  | OSError

text \<open>Messages shown to the user: \<open>st.warning\<close> in the two helpers, \<open>st.error\<close> in
  the extractor (with the path of the image). Each carries the exception it reports.\<close>

datatype msg =
    OrientationWarning error
  | ConvertWarning error
  | ExtractError string error

definition bind_err :: "error + 'a \<Rightarrow> ('a \<Rightarrow> error + 'b) \<Rightarrow> error + 'b" where
  "bind_err r f = (case r of Inl e \<Rightarrow> Inl e | Inr v \<Rightarrow> f v)"

text \<open>
  Operations of libraries the program calls and that are not part of it are parameters
  of the model: \<open>float\<close> applied to a string, the composition
  \<open>datetime.strptime(str(v), '%Y:%m:%d %H:%M:%S').strftime('%Y-%m-%d %H:%M:%S')\<close>
  (\<open>None\<close> stands for the \<open>ValueError\<close> of a string that does not parse), the formatted
  creation time of a path, the rotation of pixel data with an expanded canvas, and what
  the pixel data of an image read as once the image has been encoded into a file and
  decoded again.
\<close>

record 'px lib =
  float_of_str :: "string \<Rightarrow> real option"
  reformat_date :: "pyval \<Rightarrow> string option"
  getctime_str :: "string \<Rightarrow> string"
  rotate_px :: "int \<Rightarrow> 'px \<Rightarrow> 'px"
  encode_px :: "'px \<Rightarrow> 'px"

text \<open>\<open>float(v)\<close>.\<close>

fun py_float :: "('px, 'z) lib_scheme \<Rightarrow> pyval \<Rightarrow> error + real" where
  "py_float L (PInt i) = Inr (of_int i)"
| "py_float L (PFloat r) = Inr r"
| "py_float L (PStr s) =
     (case float_of_str L s of
        None \<Rightarrow> Inl (ValueError (''could not convert string to float: '' @ s))
      | Some r \<Rightarrow> Inr r)"
| "py_float L PNone = Inl TypeError"
| "py_float L (PTuple xs) = Inl TypeError"
| "py_float L (PDict kvs) = Inl TypeError"

text \<open>\<open>v[i]\<close> for a literal index \<open>i \<ge> 0\<close>: tuples and strings are indexed by position,
  a dictionary by key, anything else is not subscriptable.\<close>

fun py_index :: "pyval \<Rightarrow> nat \<Rightarrow> error + pyval" where
  "py_index (PTuple xs) i = (if i < length xs then Inr (xs ! i) else Inl IndexError)"
| "py_index (PStr s) i = (if i < length s then Inr (PStr [s ! i]) else Inl IndexError)"
| "py_index (PDict kvs) i =
     (case map_of kvs (int i) of None \<Rightarrow> Inl KeyError | Some v \<Rightarrow> Inr v)"
| "py_index PNone i = Inl TypeError"
| "py_index (PInt n) i = Inl TypeError"
| "py_index (PFloat r) i = Inl TypeError"

text \<open>\<open>isinstance(v, tuple)\<close>.\<close>

fun is_tuple :: "pyval \<Rightarrow> bool" where
  "is_tuple (PTuple xs) = True"
| "is_tuple v = False"

text \<open>Float division \<open>a / b\<close>.\<close>

definition py_div :: "real \<Rightarrow> real \<Rightarrow> error + real" where
  "py_div a b = (if b = 0 then Inl ZeroDivisionError else Inr (a / b))"

section \<open>Converting a degrees, minutes, seconds triplet\<close>

text \<open>
  \<open>float(c[0]) / float(c[1]) if isinstance(c, tuple) else float(c)\<close>: the quotient used
  for each component of a coordinate and for the altitude.
\<close>

definition number_of :: "('px, 'z) lib_scheme \<Rightarrow> pyval \<Rightarrow> error + real" where
  "number_of L c =
     (if is_tuple c then
        bind_err (py_index c 0) (\<lambda>n. bind_err (py_float L n) (\<lambda>nf.
        bind_err (py_index c 1) (\<lambda>d. bind_err (py_float L d) (\<lambda>df. py_div nf df))))
      else py_float L c)"

text \<open>Component \<open>i\<close> of \<open>value\<close>: \<open>value[i]\<close> is read first (by \<open>isinstance\<close>).\<close>

definition component :: "('px, 'z) lib_scheme \<Rightarrow> pyval \<Rightarrow> nat \<Rightarrow> error + real" where
  "component L v i = bind_err (py_index v i) (number_of L)"

text \<open>The body of the \<open>try\<close> block of \<open>convert_to_degrees\<close>.\<close>

definition to_degrees :: "('px, 'z) lib_scheme \<Rightarrow> pyval \<Rightarrow> error + real" where
  "to_degrees L v =
     bind_err (component L v 0) (\<lambda>d.
     bind_err (component L v 1) (\<lambda>m.
     bind_err (component L v 2) (\<lambda>s. Inr (d + (m / 60) + (s / 3600)))))"

text \<open>\<open>convert_to_degrees\<close>: every exception becomes a warning and the result \<open>None\<close>.\<close>

definition convert_to_degrees ::
  "('px, 'z) lib_scheme \<Rightarrow> pyval \<Rightarrow> msg list \<times> real option" where
  "convert_to_degrees L v =
     (case to_degrees L v of
        Inl e \<Rightarrow> ([ConvertWarning e], None)
      | Inr r \<Rightarrow> ([], Some r))"

text \<open>
  The specification's reading of one component of a well-formed triplet: a plain number,
  or a pair of plain numbers with a non-zero denominator that stands for numerator
  divided by denominator.
\<close>

fun plain_number :: "pyval \<Rightarrow> real option" where
  "plain_number (PInt i) = Some (of_int i)"
| "plain_number (PFloat r) = Some r"
| "plain_number v = None"

fun spec_component :: "pyval \<Rightarrow> real option" where
  "spec_component (PTuple [n, d]) =
     (case (plain_number n, plain_number d) of
        (Some a, Some b) \<Rightarrow> (if b = 0 then None else Some (a / b))
      | _ \<Rightarrow> None)"
| "spec_component v = plain_number v"

section \<open>The tag tables of the imaging library\<close>

text \<open>
  \<open>ExifTags.TAGS\<close> and \<open>ExifTags.GPSTAGS\<close> map numeric tag ids to names. Only the
  names the program compares with are listed; any other id is looked up with
  \<open>.get(t, t)\<close> and so resolves to a key that none of the comparisons matches, which
  is what \<open>TId\<close> stands for.
\<close>

datatype tagkey = TName string | TId int

definition TAGS :: "(int \<times> string) list" where
  "TAGS = [(274, ''Orientation''), (306, ''DateTime''), (34853, ''GPSInfo''),
           (36867, ''DateTimeOriginal''), (36868, ''DateTimeDigitized'')]"

definition GPSTAGS :: "(int \<times> string) list" where
  "GPSTAGS = [(1, ''GPSLatitudeRef''), (2, ''GPSLatitude''), (3, ''GPSLongitudeRef''),
              (4, ''GPSLongitude''), (5, ''GPSAltitudeRef''), (6, ''GPSAltitude''),
              (17, ''GPSImgDirection'')]"

text \<open>\<open>table.get(t, t)\<close>.\<close>

definition tag_get :: "(int \<times> string) list \<Rightarrow> int \<Rightarrow> tagkey" where
  "tag_get table t = (case map_of table t of None \<Rightarrow> TId t | Some n \<Rightarrow> TName n)"

section \<open>Images and the file system\<close>

text \<open>
  An opened image offers its pixel data and \<open>_getexif()\<close>, which either raises (the
  image class has no such method, or the block is corrupt) or returns the tag table
  in iteration order, or \<open>None\<close>.
\<close>

record 'px image =
  pixels :: 'px
  getexif :: "error + (int \<times> pyval) list option"

record overlay =
  ov_name :: string
  ov_href :: string
  north :: real
  south :: real
  east :: real
  west :: real
  rotation :: real

text \<open>The placemark; of its HTML description the model keeps the values of the table
  cells and the name of the embedded image, not their rendering.\<close>

record point =
  pt_name :: string
  pt_coords :: "real \<times> real \<times> real"
  pt_date :: string
  pt_alt :: real
  pt_orientation :: real
  pt_lat :: real
  pt_lon :: real
  pt_icon :: string
  pt_absolute :: bool

datatype feature = GroundOverlay overlay | Point point

datatype 'px content =
    ImageFile "'px image"
  | KmlFile "feature list"
  | ZipFile "(string \<times> 'px content) list"
  | OtherFile

type_synonym 'px fs = "string \<Rightarrow> 'px content option"

text \<open>\<open>Image.open(path)\<close>: a missing file and a file that is not an image both raise
  a subclass of \<open>OSError\<close>.\<close>

definition image_open :: "'px fs \<Rightarrow> string \<Rightarrow> error + 'px image" where
  "image_open fs p = (case fs p of Some (ImageFile im) \<Rightarrow> Inr im | _ \<Rightarrow> Inl OSError)"

text \<open>
  \<open>image.save(path)\<close>, called without \<open>exif=\<close>: the file written holds the encoded
  pixel data and no tag table, whatever tags the image object carried; reading its tags
  gives \<open>None\<close>. A save that fails (an image mode the format of the file name cannot
  hold, an input/output error) is not modelled.
\<close>

definition saved_file :: "('px, 'z) lib_scheme \<Rightarrow> 'px image \<Rightarrow> 'px content" where
  "saved_file L im = ImageFile \<lparr>pixels = encode_px L (pixels im), getexif = Inr None\<rparr>"

section \<open>Orientation Corrector\<close>

text \<open>The loop over \<open>ExifTags.TAGS.keys()\<close> leaves \<open>orientation\<close> at the first id
  named "Orientation" (or at the last key, were there none).\<close>

definition orientation_key :: int where
  "orientation_key =
     (case find (\<lambda>(k, n). n = ''Orientation'') TAGS of
        Some (k, n) \<Rightarrow> k
      | None \<Rightarrow> fst (last TAGS))"

text \<open>\<open>v == n\<close> for an integer literal \<open>n\<close>.\<close>

fun py_eq_int :: "pyval \<Rightarrow> int \<Rightarrow> bool" where
  "py_eq_int (PInt i) n = (i = n)"
| "py_eq_int (PFloat r) n = (r = of_int n)"
| "py_eq_int v n = False"

text \<open>\<open>image.rotate(angle, expand=True)\<close>: a new image object, which is not an image
  file and has no \<open>_getexif\<close>.\<close>

definition rotate :: "('px, 'z) lib_scheme \<Rightarrow> int \<Rightarrow> 'px image \<Rightarrow> 'px image" where
  "rotate L angle im = \<lparr>pixels = rotate_px L angle (pixels im), getexif = Inl AttributeError\<rparr>"

definition correct_image_orientation ::
  "('px, 'z) lib_scheme \<Rightarrow> 'px image \<Rightarrow> msg list \<times> 'px image" where
  "correct_image_orientation L im =
     (case getexif im of
        Inl e \<Rightarrow> ([OrientationWarning e], im)
      | Inr exif \<Rightarrow>
          (case exif of
             None \<Rightarrow> ([], im)
           | Some ex \<Rightarrow>
               (case map_of ex orientation_key of
                  None \<Rightarrow> ([], im)
                | Some v \<Rightarrow>
                    if py_eq_int v 3 then ([], rotate L 180 im)
                    else if py_eq_int v 6 then ([], rotate L 270 im)
                    else if py_eq_int v 8 then ([], rotate L 90 im)
                    else ([], im))))"

section \<open>Metadata Extractor\<close>

record metadata =
  latitude :: "real option"
  longitude :: "real option"
  altitude :: real
  orientation :: pyval
  date_created :: string

type_synonym gps_dict = "(tagkey \<times> pyval) list"

text \<open>\<open>not date_taken\<close>: the variable is \<open>None\<close> or an empty string.\<close>

fun no_date :: "string option \<Rightarrow> bool" where
  "no_date None = True"
| "no_date (Some s) = (s = [])"

text \<open>One of the three date tags. A \<open>ValueError\<close> of the parse is swallowed by the
  inner \<open>try\<close> and leaves the variable as it was.\<close>

definition date_step ::
  "('px, 'z) lib_scheme \<Rightarrow> string \<Rightarrow> pyval \<Rightarrow> string option \<Rightarrow> string option" where
  "date_step L tag_name v date_taken =
     (if tag_name = ''DateTimeOriginal'' then
        (case reformat_date L v of None \<Rightarrow> date_taken | Some s \<Rightarrow> Some s)
      else if no_date date_taken \<and> tag_name = ''DateTime'' then
        (case reformat_date L v of None \<Rightarrow> date_taken | Some s \<Rightarrow> Some s)
      else if no_date date_taken \<and> tag_name = ''DateTimeDigitized'' then
        (case reformat_date L v of None \<Rightarrow> date_taken | Some s \<Rightarrow> Some s)
      else date_taken)"

text \<open>The inner loop over the GPS sub-block: \<open>gps_info[GPSTAGS.get(t, t)] = val\<close>.\<close>

fun scan_gps :: "(int \<times> pyval) list \<Rightarrow> gps_dict \<Rightarrow> gps_dict" where
  "scan_gps [] g = g"
| "scan_gps ((t, val) # rest) g = scan_gps rest (AList.update (tag_get GPSTAGS t) val g)"

text \<open>The loop over \<open>exif_data.items()\<close>; \<open>value.items()\<close> raises when the value
  stored under the GPS tag is not a dictionary.\<close>

fun scan_exif ::
  "('px, 'z) lib_scheme \<Rightarrow> (int \<times> pyval) list \<Rightarrow> gps_dict \<times> string option \<Rightarrow>
     error + (gps_dict \<times> string option)" where
  "scan_exif L [] acc = Inr acc"
| "scan_exif L ((tag, v) # rest) (gps_info, date_taken) =
     (case tag_get TAGS tag of
        TName tag_name \<Rightarrow>
          if tag_name = ''GPSInfo'' then
            (case v of
               PDict kvs \<Rightarrow> scan_exif L rest (scan_gps kvs gps_info, date_taken)
             | _ \<Rightarrow> Inl AttributeError)
          else if tag_name \<in> set [''DateTime'', ''DateTimeOriginal'', ''DateTimeDigitized''] then
            scan_exif L rest (gps_info, date_step L tag_name v date_taken)
          else scan_exif L rest (gps_info, date_taken)
      | TId t \<Rightarrow> scan_exif L rest (gps_info, date_taken))"

text \<open>\<open>if gps_info[key] == letter: c = -c\<close>: a missing key raises \<open>KeyError\<close>, and
  negating \<open>None\<close> raises \<open>TypeError\<close>.\<close>

definition negate_if_ref ::
  "gps_dict \<Rightarrow> string \<Rightarrow> string \<Rightarrow> real option \<Rightarrow> error + real option" where
  "negate_if_ref gps_info key letter c =
     (case map_of gps_info (TName key) of
        None \<Rightarrow> Inl KeyError
      | Some r \<Rightarrow>
          if r = PStr letter then
            (case c of None \<Rightarrow> Inl TypeError | Some x \<Rightarrow> Inr (Some (- x)))
          else Inr c)"

text \<open>The part of \<open>get_gps_metadata\<close> after the check that \<open>gps_info\<close> is not empty.\<close>

definition build_metadata ::
  "('px, 'z) lib_scheme \<Rightarrow> gps_dict \<Rightarrow> string \<Rightarrow> msg list \<times> (error + metadata option)" where
  "build_metadata L gps_info date_taken =
     (case (map_of gps_info (TName ''GPSLatitude''), map_of gps_info (TName ''GPSLongitude'')) of
        (Some lat_v, Some lon_v) \<Rightarrow>
          (let (w1, lat) = convert_to_degrees L lat_v;
               (w2, lon) = convert_to_degrees L lon_v
           in (w1 @ w2,
               bind_err (negate_if_ref gps_info ''GPSLatitudeRef'' ''S'' lat) (\<lambda>lat'.
               bind_err (negate_if_ref gps_info ''GPSLongitudeRef'' ''W'' lon) (\<lambda>lon'.
               bind_err (number_of L
                           (case map_of gps_info (TName ''GPSAltitude'') of
                              None \<Rightarrow> PTuple [PInt 0, PInt 1]
                            | Some a \<Rightarrow> a)) (\<lambda>alt.
               Inr (Some \<lparr>latitude = lat', longitude = lon', altitude = alt,
                          orientation =
                            (case map_of gps_info (TName ''GPSImgDirection'') of
                               None \<Rightarrow> PInt 0
                             | Some h \<Rightarrow> h),
                          date_created = date_taken\<rparr>))))))
      | _ \<Rightarrow> ([], Inr None))"

text \<open>Lines 76 and 77: without a date from the tags, the creation time of the file.\<close>

definition resolve_date :: "('px, 'z) lib_scheme \<Rightarrow> string \<Rightarrow> string option \<Rightarrow> string" where
  "resolve_date L image_path date_taken =
     (case date_taken of
        None \<Rightarrow> getctime_str L image_path
      | Some s \<Rightarrow> if s = [] then getctime_str L image_path else s)"

text \<open>The body of the outer \<open>try\<close> block, with the warnings emitted on the way.\<close>

definition try_extract ::
  "('px, 'z) lib_scheme \<Rightarrow> 'px fs \<Rightarrow> string \<Rightarrow> msg list \<times> (error + metadata option)" where
  "try_extract L fs image_path =
     (case image_open fs image_path of
        Inl e \<Rightarrow> ([], Inl e)
      | Inr im \<Rightarrow>
          (case getexif im of
             Inl e \<Rightarrow> ([], Inl e)
           | Inr None \<Rightarrow> ([], Inr None)
           | Inr (Some exif_data) \<Rightarrow>
               if exif_data = [] then ([], Inr None)
               else
                 (case scan_exif L exif_data ([], None) of
                    Inl e \<Rightarrow> ([], Inl e)
                  | Inr (gps_info, date_taken) \<Rightarrow>
                      (let date = resolve_date L image_path date_taken
                       in if gps_info = [] then ([], Inr None)
                          else build_metadata L gps_info date))))"

text \<open>\<open>get_gps_metadata\<close>: the outer handler reports the exception and returns \<open>None\<close>.\<close>

definition get_gps_metadata ::
  "('px, 'z) lib_scheme \<Rightarrow> 'px fs \<Rightarrow> string \<Rightarrow> msg list \<times> metadata option" where
  "get_gps_metadata L fs image_path =
     (case try_extract L fs image_path of
        (ms, Inl e) \<Rightarrow> (ms @ [ExtractError image_path e], None)
      | (ms, Inr m) \<Rightarrow> (ms, m))"

section \<open>File names and paths\<close>

text \<open>
  \<open>str.lower\<close> on ASCII letters (a \<open>char\<close> is a byte; letters outside ASCII are left
  as they are), \<open>str.endswith\<close>, and the POSIX versions of \<open>os.path.join\<close> and
  \<open>os.path.basename\<close>.
\<close>

definition lower_char :: "char \<Rightarrow> char" where
  "lower_char c =
     (let n = (of_char c :: nat) in if 65 \<le> n \<and> n \<le> 90 then char_of (n + 32) else c)"

definition lower :: "string \<Rightarrow> string" where
  "lower s = map lower_char s"

definition endswith :: "string \<Rightarrow> string \<Rightarrow> bool" where
  "endswith s suffix = (length suffix \<le> length s \<and> drop (length s - length suffix) s = suffix)"

definition path_join :: "string \<Rightarrow> string \<Rightarrow> string" where
  "path_join a b =
     (if b \<noteq> [] \<and> hd b = CHR ''/'' then b
      else if a = [] \<or> last a = CHR ''/'' then a @ b
      else a @ ''/'' @ b)"

definition basename :: "string \<Rightarrow> string" where
  "basename p = rev (takeWhile (\<lambda>c. c \<noteq> CHR ''/'') (rev p))"

text \<open>The candidate images: the entries of the directory (the result of
  \<open>os.listdir\<close>) whose lower-cased name ends with one of the three extensions.\<close>

definition is_candidate :: "string \<Rightarrow> bool" where
  "is_candidate f =
     (endswith (lower f) ''.jpg'' \<or> endswith (lower f) ''.jpeg'' \<or> endswith (lower f) ''.png'')"

definition image_paths :: "string \<Rightarrow> string list \<Rightarrow> string list" where
  "image_paths folder_path entries = map (path_join folder_path) (filter is_candidate entries)"

section \<open>Document Assembler and Archive Packager\<close>

text \<open>
  The state that \<open>create_kmz_with_fan_overlay\<close> threads through its loop: the file
  system, the features added to the document so far, the list \<open>kmz_images\<close>, the flag
  \<open>has_data\<close> and the messages shown.
\<close>

record 'px state =
  files :: "'px fs"
  features :: "feature list"
  kmz_images :: "(string \<times> string) list"
  has_data :: bool
  messages :: "msg list"

definition overlay_size :: real where
  "overlay_size = 0.0001"

text \<open>\<open>lat + overlay_size / 2\<close> and its like: an operand that is \<open>None\<close> raises.\<close>

definition add_opt :: "real option \<Rightarrow> real \<Rightarrow> error + real" where
  "add_opt c x = (case c of None \<Rightarrow> Inl TypeError | Some v \<Rightarrow> Inr (v + x))"

definition sub_opt :: "real option \<Rightarrow> real \<Rightarrow> error + real" where
  "sub_opt c x = (case c of None \<Rightarrow> Inl TypeError | Some v \<Rightarrow> Inr (v - x))"

text \<open>The ground overlay of one image: lines 128 to 141.\<close>

definition make_overlay :: "string \<Rightarrow> real option \<Rightarrow> real option \<Rightarrow> real \<Rightarrow> error + overlay" where
  "make_overlay image_name lat lon heading =
     bind_err (add_opt lat (overlay_size / 2)) (\<lambda>n.
     bind_err (sub_opt lat (overlay_size / 2)) (\<lambda>s.
     bind_err (add_opt lon (overlay_size / 2)) (\<lambda>e.
     bind_err (sub_opt lon (overlay_size / 2)) (\<lambda>w.
     Inr \<lparr>ov_name = ''Overlay - '' @ image_name, ov_href = ''Fan.png'',
          north = n, south = s, east = e, west = w, rotation = - \<bar>heading\<bar>\<rparr>))))"

text \<open>The placemark of one image: the description is formatted (which needs numbers)
  before the point is created.\<close>

definition make_point ::
  "string \<Rightarrow> real option \<Rightarrow> real option \<Rightarrow> real \<Rightarrow> real \<Rightarrow> string \<Rightarrow> error + point" where
  "make_point image_name lat lon alt heading date =
     (case (lat, lon) of
        (Some la, Some lo) \<Rightarrow>
          Inr \<lparr>pt_name = image_name, pt_coords = (lo, la, alt), pt_date = date,
               pt_alt = alt, pt_orientation = heading, pt_lat = la, pt_lon = lo,
               pt_icon = ''http://maps.google.com/mapfiles/kml/paddle/blu-circle.png'',
               pt_absolute = True\<rparr>
      | _ \<Rightarrow> Inl TypeError)"

text \<open>
  One iteration of the loop. The result pairs the exception that left the loop body,
  if any, with the state reached: what was saved before an exception stays saved.
\<close>

definition process_image ::
  "('px, 'z) lib_scheme \<Rightarrow> string \<Rightarrow> 'px state \<Rightarrow> string \<Rightarrow> error option \<times> 'px state" where
  "process_image L folder_path st image_path =
     (case get_gps_metadata L (files st) image_path of
        (ms, None) \<Rightarrow> (None, st\<lparr>messages := messages st @ ms\<rparr>)
      | (ms, Some md) \<Rightarrow>
          (let st1 = st\<lparr>messages := messages st @ ms, has_data := True\<rparr> in
           case py_float L (orientation md) of
             Inl e \<Rightarrow> (Some e, st1)
           | Inr heading \<Rightarrow>
               (let image_name = basename image_path in
                case image_open (files st1) image_path of
                  Inl e \<Rightarrow> (Some e, st1)
                | Inr im \<Rightarrow>
                    (let (ws, corrected_image) = correct_image_orientation L im;
                         corrected_image_path = path_join folder_path image_name;
                         st2 = st1\<lparr>messages := messages st1 @ ws,
                                   files := (files st1)(corrected_image_path \<mapsto>
                                              saved_file L corrected_image)\<rparr>
                     in case make_overlay image_name (latitude md) (longitude md) heading of
                          Inl e \<Rightarrow> (Some e, st2)
                        | Inr ground_overlay \<Rightarrow>
                            (let st3 = st2\<lparr>features := features st2 @ [GroundOverlay ground_overlay]\<rparr>
                             in case make_point image_name (latitude md) (longitude md)
                                       (altitude md) heading (date_created md) of
                                  Inl e \<Rightarrow> (Some e, st3)
                                | Inr pnt \<Rightarrow>
                                    (None, st3\<lparr>features := features st3 @ [Point pnt],
                                               kmz_images := kmz_images st3 @
                                                 [(image_name, corrected_image_path)]\<rparr>))))))"

fun process_images ::
  "('px, 'z) lib_scheme \<Rightarrow> string \<Rightarrow> string list \<Rightarrow> 'px state \<Rightarrow> error option \<times> 'px state" where
  "process_images L folder_path [] st = (None, st)"
| "process_images L folder_path (p # ps) st =
     (case process_image L folder_path st p of
        (Some e, st') \<Rightarrow> (Some e, st')
      | (None, st') \<Rightarrow> process_images L folder_path ps st')"

text \<open>\<open>kmz.write(path, arcname)\<close> into the archive open at \<open>output_kmz\<close>.\<close>

definition zip_write :: "string \<Rightarrow> 'px fs \<Rightarrow> string \<times> string \<Rightarrow> error + 'px fs" where
  "zip_write output_kmz fs w =
     (case w of (path, arcname) \<Rightarrow>
        (case (fs path, fs output_kmz) of
           (Some c, Some (ZipFile es)) \<Rightarrow> Inr (fs(output_kmz \<mapsto> ZipFile (es @ [(arcname, c)])))
         | _ \<Rightarrow> Inl OSError))"

fun zip_writes :: "string \<Rightarrow> 'px fs \<Rightarrow> (string \<times> string) list \<Rightarrow> error option \<times> 'px fs" where
  "zip_writes output_kmz fs [] = (None, fs)"
| "zip_writes output_kmz fs (w # ws) =
     (case zip_write output_kmz fs w of
        Inl e \<Rightarrow> (Some e, fs)
      | Inr fs' \<Rightarrow> zip_writes output_kmz fs' ws)"

definition logo_name :: string where
  "logo_name = ''Construct_Solutions_Logo_HALF.png''"

text \<open>
  Lines 206 to 232: the fan image is moved and the logo copied into the folder, the
  document is saved, the archive is created at \<open>output_kmz\<close> (opening it for writing
  truncates what was there) and filled, and the document file is removed. Copying the
  logo onto itself raises; the model recognises that case by equal path strings only, and
  takes the creation of the archive file itself to succeed.
\<close>

definition package ::
  "string \<Rightarrow> string \<Rightarrow> string \<Rightarrow> 'px state \<Rightarrow> error option \<times> 'px state" where
  "package folder_path output_kmz fan_image_path st =
     (let fs0 = files st;
          fan_image_dest = path_join folder_path ''Fan.png'';
          fs1 = (case fs0 fan_image_path of
                   None \<Rightarrow> fs0
                 | Some c \<Rightarrow> (fs0(fan_image_path := None))(fan_image_dest \<mapsto> c));
          logo_dest = path_join folder_path logo_name
      in case (if fs1 logo_name \<noteq> None \<and> logo_name = logo_dest then Inl OSError
               else Inr (case fs1 logo_name of None \<Rightarrow> fs1 | Some c \<Rightarrow> fs1(logo_dest \<mapsto> c))) of
           Inl e \<Rightarrow> (Some e, st\<lparr>files := fs1\<rparr>)
         | Inr fs2 \<Rightarrow>
             (let kml_file = path_join folder_path ''doc.kml'';
                  fs3 = fs2(kml_file \<mapsto> KmlFile (features st));
                  fs4 = fs3(output_kmz \<mapsto> ZipFile []);
                  ws = [(kml_file, ''doc.kml'')]
                       @ map (\<lambda>(img_name, img_path). (img_path, img_name)) (kmz_images st)
                       @ (if fs4 fan_image_dest \<noteq> None then [(fan_image_dest, ''Fan.png'')] else [])
                       @ (if fs4 logo_dest \<noteq> None then [(logo_dest, logo_name)] else [])
              in case zip_writes output_kmz fs4 ws of
                   (Some e, fs5) \<Rightarrow> (Some e, st\<lparr>files := fs5\<rparr>)
                 | (None, fs5) \<Rightarrow> (None, st\<lparr>files := fs5(kml_file := None)\<rparr>)))"

definition no_gps_error :: error where
  "no_gps_error = ValueError ''No valid GPS metadata found in the uploaded images.''"

text \<open>
  A library for the concrete examples below: no string converts to a float, a date is
  reformatted when it is a string of 19 characters with colons at positions 4 and 7,
  every file was created at the epoch, pixel data is the angle it has been turned by, and
  encoding keeps it.
\<close>

definition demo_reformat :: "pyval \<Rightarrow> string option" where
  "demo_reformat v =
     (case v of
        PStr s \<Rightarrow>
          if length s = 19 \<and> s ! 4 = CHR '':'' \<and> s ! 7 = CHR '':''
          then Some (s[4 := CHR ''-'', 7 := CHR ''-''])
          else None
      | _ \<Rightarrow> None)"

definition demo_lib :: "int lib" where
  "demo_lib = \<lparr>float_of_str = (\<lambda>s. None), reformat_date = demo_reformat,
                getctime_str = (\<lambda>p. ''1970-01-01 00:00:00''),
                rotate_px = (\<lambda>angle p. (p + angle) mod 360),
                encode_px = (\<lambda>p. p)\<rparr>"

text \<open>
  Example images. \<open>demo_image\<close> is the scenario of the specification: 40 deg 26 min
  46 s north, 79 deg 58 min 56 s west, altitude 300 m, heading 45, taken on
  2023-06-01 at 10:00:00, stored turned (orientation 6). \<open>plain_image\<close> has no tag
  table. \<open>short_lat_image\<close> has a latitude of two components only. \<open>digitized_first_image\<close>
  lists the tag "DateTimeDigitized" before the tag "DateTime". \<open>no_ref_image\<close> lacks
  the latitude reference. \<open>south_image\<close> lies at 33 deg 51 min 54 s south, 151 deg
  12 min 36 s east.
\<close>

definition dms :: "int \<Rightarrow> int \<Rightarrow> int \<Rightarrow> pyval" where
  "dms d m s = PTuple [PTuple [PInt d, PInt 1], PTuple [PInt m, PInt 1], PTuple [PInt s, PInt 1]]"

definition demo_image :: "int image" where
  "demo_image =
     \<lparr>pixels = 0,
      getexif = Inr (Some [(274, PInt 6), (36867, PStr ''2023:06:01 10:00:00''),
                 (34853, PDict [(1, PStr ''N''), (2, dms 40 26 46), (3, PStr ''W''),
                                (4, dms 79 58 56), (6, PTuple [PInt 300, PInt 1]),
                                (17, PFloat 45)])])\<rparr>"

definition plain_image :: "int image" where
  "plain_image = \<lparr>pixels = 0, getexif = Inr None\<rparr>"

definition short_lat_image :: "int image" where
  "short_lat_image =
     \<lparr>pixels = 0,
      getexif = Inr (Some [(34853, PDict [(1, PStr ''N''), (2, PTuple [PInt 40, PInt 26]),
                                         (3, PStr ''W''), (4, dms 79 58 56)])])\<rparr>"

definition digitized_first_image :: "int image" where
  "digitized_first_image =
     \<lparr>pixels = 0,
      getexif = Inr (Some [(36868, PStr ''2020:01:01 00:00:00''),
                 (306, PStr ''2021:01:01 00:00:00''),
                 (34853, PDict [(1, PStr ''N''), (2, dms 40 26 46), (3, PStr ''W''),
                                (4, dms 79 58 56)])])\<rparr>"

definition no_ref_image :: "int image" where
  "no_ref_image =
     \<lparr>pixels = 0,
      getexif = Inr (Some [(34853, PDict [(2, dms 40 26 46), (3, PStr ''W''),
                                         (4, dms 79 58 56)])])\<rparr>"

definition south_image :: "int image" where
  "south_image =
     \<lparr>pixels = 0,
      getexif = Inr (Some [(34853, PDict [(1, PStr ''S''), (2, dms 33 51 54), (3, PStr ''E''),
                                         (4, dms 151 12 36)])])\<rparr>"

definition demo_fs :: "int fs" where
  "demo_fs = (\<lambda>p. None)(''/data/a.jpg'' \<mapsto> ImageFile demo_image,
                          ''/data/b.png'' \<mapsto> ImageFile plain_image,
                          ''/data/c.jpg'' \<mapsto> ImageFile short_lat_image,
                          ''/data/d.jpg'' \<mapsto> ImageFile digitized_first_image,
                          ''/data/e.jpg'' \<mapsto> ImageFile no_ref_image,
                          ''/data/s.jpg'' \<mapsto> ImageFile south_image)"

definition initial :: "'px fs \<Rightarrow> 'px state" where
  "initial fs = \<lparr>files = fs, features = [], kmz_images = [], has_data = False, messages = []\<rparr>"

text \<open>
  \<open>create_kmz_with_fan_overlay\<close>, on the file system \<open>fs\<close> in which \<open>os.listdir\<close> of
  the folder returns \<open>entries\<close>. The result is the exception raised, if any, and the
  state left behind.
\<close>

definition create_kmz_with_fan_overlay ::
  "('px, 'z) lib_scheme \<Rightarrow> 'px fs \<Rightarrow> string list \<Rightarrow> string \<Rightarrow> string \<Rightarrow> string \<Rightarrow>
     error option \<times> 'px state" where
  "create_kmz_with_fan_overlay L fs entries folder_path output_kmz fan_image_path =
     (case process_images L folder_path (image_paths folder_path entries) (initial fs) of
        (Some e, st) \<Rightarrow> (Some e, st)
      | (None, st) \<Rightarrow>
          if \<not> has_data st then (Some no_gps_error, st)
          else package folder_path output_kmz fan_image_path st)"

section \<open>Results about the triplet conversion\<close>

lemma py_float_plain: "plain_number v = Some r \<Longrightarrow> py_float L v = Inr r"
  by (cases v) auto

lemma number_of_spec: "spec_component c = Some r \<Longrightarrow> number_of L c = Inr r"
proof (induction c rule: spec_component.induct)
  case (1 n d)
  then obtain a b where ab: "plain_number n = Some a" "plain_number d = Some b"
    "b \<noteq> 0" "r = a / b"
    by (auto split: option.splits if_splits)
  then show ?case
    by (simp add: number_of_def bind_err_def py_div_def py_float_plain)
qed (auto simp: number_of_def)

lemma component_spec:
  "i < length cs \<Longrightarrow> spec_component (cs ! i) = Some r \<Longrightarrow> component L (PTuple cs) i = Inr r"
  by (simp add: component_def bind_err_def number_of_spec)

text \<open>
  Claim C3. A triplet of three components, each a plain number or a pair of plain numbers
  with a non-zero denominator, converts without a warning to degrees plus minutes over 60
  plus seconds over 3600, a pair counting as numerator divided by denominator.
\<close>

theorem convert_to_degrees_dms:
  assumes "spec_component d = Some x" and "spec_component m = Some y"
    and "spec_component s = Some z"
  shows "convert_to_degrees L (PTuple [d, m, s]) = ([], Some (x + y / 60 + z / 3600))"
proof -
  have "component L (PTuple [d, m, s]) 0 = Inr x"
    using assms(1) by (simp add: component_spec)
  moreover have "component L (PTuple [d, m, s]) 1 = Inr y"
    using assms(2) by (simp add: component_spec)
  moreover have "component L (PTuple [d, m, s]) 2 = Inr z"
    using assms(3) by (simp add: component_spec)
  ultimately show ?thesis
    by (simp add: convert_to_degrees_def to_degrees_def bind_err_def)
qed

theorem convert_to_degrees_dms_witness:
  "spec_component (PTuple [PInt 40, PInt 1]) = Some 40 \<and> spec_component (PInt 26) = Some 26
   \<and> spec_component (PTuple [PFloat 4600, PInt 100]) = Some 46
   \<and> convert_to_degrees demo_lib
        (PTuple [PTuple [PInt 40, PInt 1], PInt 26, PTuple [PFloat 4600, PInt 100]])
       = ([], Some (40 + 26 / 60 + 46 / 3600))"
proof -
  have a: "spec_component (PTuple [PInt 40, PInt 1]) = Some 40" by simp
  have b: "spec_component (PInt 26) = Some 26" by simp
  have c: "spec_component (PTuple [PFloat 4600, PInt 100]) = Some 46" by simp
  show ?thesis using a b c convert_to_degrees_dms [OF a b c, of demo_lib] by simp
qed

section \<open>Results about the extractor and the loop\<close>

lemma get_gps_metadata_SomeD:
  assumes "get_gps_metadata L fs p = (ms, Some md)"
  shows "\<exists>im ex g d. image_open fs p = Inr im \<and> getexif im = Inr (Some ex)
           \<and> scan_exif L ex ([], None) = Inr (g, d)
           \<and> build_metadata L g (resolve_date L p d) = (ms, Inr (Some md))"
  using assms
  by (auto simp: get_gps_metadata_def try_extract_def Let_def
           split: sum.splits option.splits prod.splits if_splits)

lemma make_overlay_InrD:
  "make_overlay n lat lon h = Inr ov \<Longrightarrow>
     \<exists>la lo. lat = Some la \<and> lon = Some lo
       \<and> ov = \<lparr>ov_name = ''Overlay - '' @ n, ov_href = ''Fan.png'',
                north = la + overlay_size / 2, south = la - overlay_size / 2,
                east = lo + overlay_size / 2, west = lo - overlay_size / 2,
                rotation = - \<bar>h\<bar>\<rparr>"
  by (auto simp: make_overlay_def add_opt_def sub_opt_def bind_err_def split: option.splits)

lemma process_image_NoneD:
  assumes "get_gps_metadata L (files st) p = (ms, Some md)"
    and "process_image L folder st p = (None, st')"
  shows "\<exists>h im ov pt. py_float L (orientation md) = Inr h
           \<and> image_open (files st) p = Inr im
           \<and> make_overlay (basename p) (latitude md) (longitude md) h = Inr ov
           \<and> has_data st'
           \<and> files st' = (files st)(path_join folder (basename p) \<mapsto>
                             saved_file L (snd (correct_image_orientation L im)))
           \<and> features st' = features st @ [GroundOverlay ov, Point pt]
           \<and> kmz_images st' = kmz_images st @ [(basename p, path_join folder (basename p))]"
  using assms
  by (auto simp: process_image_def Let_def split: sum.splits option.splits prod.splits)

lemma process_image_no_metadata:
  assumes "snd (get_gps_metadata L (files st) p) = None"
  shows "\<exists>ms. process_image L folder st p = (None, st\<lparr>messages := messages st @ ms\<rparr>)"
  using assms by (cases "get_gps_metadata L (files st) p") (auto simp: process_image_def)

lemma process_image_flag:
  assumes "process_image L folder st p = (None, st')"
    and "has_data st \<longleftrightarrow> kmz_images st \<noteq> []"
  shows "has_data st' \<longleftrightarrow> kmz_images st' \<noteq> []"
proof (cases "get_gps_metadata L (files st) p")
  case (Pair ms m)
  show ?thesis
  proof (cases m)
    case None
    with Pair assms show ?thesis by (auto simp: process_image_def)
  next
    case (Some md)
    with Pair process_image_NoneD [of L st p ms md folder st'] assms(1)
    show ?thesis by auto
  qed
qed

lemma process_images_flag:
  "process_images L folder ps st = (None, st') \<Longrightarrow>
   (has_data st \<longleftrightarrow> kmz_images st \<noteq> []) \<Longrightarrow> (has_data st' \<longleftrightarrow> kmz_images st' \<noteq> [])"
proof (induction ps arbitrary: st)
  case Nil
  then show ?case by simp
next
  case (Cons p ps)
  obtain r st1 where step: "process_image L folder st p = (r, st1)"
    by (cases "process_image L folder st p")
  with Cons.prems(1) have r: "r = None" and rest: "process_images L folder ps st1 = (None, st')"
    by (auto split: option.splits)
  from step r Cons.prems(2) have "has_data st1 \<longleftrightarrow> kmz_images st1 \<noteq> []"
    using process_image_flag by blast
  with rest show ?case by (rule Cons.IH)
qed

lemma process_image_keeps_flag:
  "has_data st \<Longrightarrow> has_data (snd (process_image L folder st p))"
  by (auto simp: process_image_def Let_def split: sum.splits option.splits prod.splits)

lemma process_images_keeps_flag:
  "has_data st \<Longrightarrow> has_data (snd (process_images L folder ps st))"
proof (induction ps arbitrary: st)
  case Nil
  then show ?case by simp
next
  case (Cons p ps)
  obtain r st1 where step: "process_image L folder st p = (r, st1)"
    by (cases "process_image L folder st p")
  with Cons.prems process_image_keeps_flag [of st L folder p] have "has_data st1" by simp
  with step Cons.IH [of st1] show ?case by (cases r) auto
qed

lemma process_image_no_flag:
  assumes "\<not> has_data (snd (process_image L folder st p))"
  shows "files (snd (process_image L folder st p)) = files st
         \<and> features (snd (process_image L folder st p)) = features st
         \<and> fst (process_image L folder st p) = None"
  using assms
  by (auto simp: process_image_def Let_def split: sum.splits option.splits prod.splits)

lemma process_images_no_flag:
  "\<not> has_data (snd (process_images L folder ps st)) \<Longrightarrow>
     files (snd (process_images L folder ps st)) = files st
     \<and> features (snd (process_images L folder ps st)) = features st"
proof (induction ps arbitrary: st)
  case Nil
  then show ?case by simp
next
  case (Cons p ps)
  obtain r st1 where step: "process_image L folder st p = (r, st1)"
    by (cases "process_image L folder st p")
  show ?case
  proof (cases r)
    case None
    with step Cons.prems have nf: "\<not> has_data (snd (process_images L folder ps st1))" by simp
    then have "\<not> has_data st1" using process_images_keeps_flag by blast
    with step process_image_no_flag [of L folder st p]
    have "files st1 = files st \<and> features st1 = features st" by simp
    with Cons.IH [OF nf] step None show ?thesis by simp
  next
    case (Some e)
    with step Cons.prems process_image_no_flag [of L folder st p] show ?thesis by simp
  qed
qed

lemma process_images_no_metadata:
  "\<forall>p \<in> set ps. snd (get_gps_metadata L (files st) p) = None \<Longrightarrow>
     fst (process_images L folder ps st) = None
     \<and> \<not> has_data (snd (process_images L folder ps st)) = (\<not> has_data st)
     \<and> files (snd (process_images L folder ps st)) = files st"
proof (induction ps arbitrary: st)
  case Nil
  then show ?case by simp
next
  case (Cons p ps)
  from Cons.prems have "snd (get_gps_metadata L (files st) p) = None" by simp
  then obtain ms where step: "process_image L folder st p = (None, st\<lparr>messages := messages st @ ms\<rparr>)"
    using process_image_no_metadata by blast
  have "\<forall>q \<in> set ps. snd (get_gps_metadata L (files (st\<lparr>messages := messages st @ ms\<rparr>)) q) = None"
    using Cons.prems by simp
  from Cons.IH [OF this] step show ?case by simp
qed

lemmas demo_defs = demo_fs_def demo_image_def plain_image_def short_lat_image_def
  digitized_first_image_def no_ref_image_def south_image_def dms_def demo_lib_def
  demo_reformat_def

lemmas extractor_defs = get_gps_metadata_def try_extract_def image_open_def tag_get_def TAGS_def
  GPSTAGS_def date_step_def resolve_date_def build_metadata_def convert_to_degrees_def
  to_degrees_def component_def number_of_def bind_err_def py_div_def negate_if_ref_def

lemma demo_metadata:
  "get_gps_metadata demo_lib demo_fs ''/data/a.jpg'' =
     ([], Some \<lparr>latitude = Some (40 + 26 / 60 + 46 / 3600),
                longitude = Some (- (79 + 58 / 60 + 56 / 3600)),
                altitude = 300, orientation = PFloat 45,
                date_created = ''2023-06-01 10:00:00''\<rparr>)"
  by (simp add: demo_defs extractor_defs)

lemma plain_metadata: "get_gps_metadata demo_lib demo_fs ''/data/b.png'' = ([], None)"
  by (simp add: demo_defs extractor_defs)

lemma demo_paths: "image_paths ''/data'' [''b.png'', ''notes.txt''] = [''/data/b.png'']"
  by code_simp

lemma process_image_ok:
  assumes "get_gps_metadata L (files st) p = (ms, Some md)"
    and "latitude md = Some la" and "longitude md = Some lo"
    and "py_float L (orientation md) = Inr h"
  shows "\<exists>st' im pt. process_image L folder st p = (None, st')
           \<and> image_open (files st) p = Inr im
           \<and> has_data st'
           \<and> files st' = (files st)(path_join folder (basename p) \<mapsto>
                             saved_file L (snd (correct_image_orientation L im)))
           \<and> features st' = features st @
                [GroundOverlay \<lparr>ov_name = ''Overlay - '' @ basename p, ov_href = ''Fan.png'',
                   north = la + overlay_size / 2, south = la - overlay_size / 2,
                   east = lo + overlay_size / 2, west = lo - overlay_size / 2,
                   rotation = - \<bar>h\<bar>\<rparr>, Point pt]
           \<and> kmz_images st' = kmz_images st @ [(basename p, path_join folder (basename p))]"
proof -
  from get_gps_metadata_SomeD [OF assms(1)] obtain im where "image_open (files st) p = Inr im"
    by blast
  with assms show ?thesis
    by (simp add: process_image_def Let_def make_overlay_def make_point_def add_opt_def
          sub_opt_def bind_err_def split: prod.splits)
qed

section \<open>Results about the whole conversion\<close>

text \<open>
  Claim C1. Whenever the loop over the candidate images has run to its end, the flag
  \<open>has_data\<close> is true exactly when \<open>kmz_images\<close> is not empty. When the flag is false
  then (equivalently, when no candidate yields metadata) the conversion raises the
  "No valid GPS metadata" error and leaves every file as it was, so that nothing is
  written at the output path.
\<close>

theorem no_gps_metadata_fails:
  "(process_images L folder_path (image_paths folder_path entries) (initial fs) = (None, st)
      \<longrightarrow> (has_data st \<longleftrightarrow> kmz_images st \<noteq> []))
   \<and> (process_images L folder_path (image_paths folder_path entries) (initial fs) = (None, st)
        \<and> \<not> has_data st
      \<longrightarrow> create_kmz_with_fan_overlay L fs entries folder_path output_kmz fan_image_path
            = (Some no_gps_error, st)
          \<and> files st = fs)
   \<and> ((\<forall>p \<in> set (image_paths folder_path entries). snd (get_gps_metadata L fs p) = None)
      \<longrightarrow> fst (create_kmz_with_fan_overlay L fs entries folder_path output_kmz fan_image_path)
            = Some no_gps_error
          \<and> files (snd (create_kmz_with_fan_overlay L fs entries folder_path output_kmz
                          fan_image_path)) = fs)"
proof (intro conjI impI)
  assume "process_images L folder_path (image_paths folder_path entries) (initial fs) = (None, st)"
  then show "has_data st \<longleftrightarrow> kmz_images st \<noteq> []"
    by (rule process_images_flag) (simp add: initial_def)
next
  assume a: "process_images L folder_path (image_paths folder_path entries) (initial fs) = (None, st)
             \<and> \<not> has_data st"
  then show "create_kmz_with_fan_overlay L fs entries folder_path output_kmz fan_image_path
               = (Some no_gps_error, st)"
    by (simp add: create_kmz_with_fan_overlay_def)
  from a process_images_no_flag [of L folder_path "image_paths folder_path entries" "initial fs"]
  show "files st = fs" by (simp add: initial_def)
next
  let ?ps = "image_paths folder_path entries"
  assume "\<forall>p \<in> set ?ps. snd (get_gps_metadata L fs p) = None"
  then have "\<forall>p \<in> set ?ps. snd (get_gps_metadata L (files (initial fs)) p) = None"
    by (simp add: initial_def)
  from process_images_no_metadata [OF this, of folder_path]
  have r: "fst (process_images L folder_path ?ps (initial fs)) = None"
    "\<not> has_data (snd (process_images L folder_path ?ps (initial fs)))"
    "files (snd (process_images L folder_path ?ps (initial fs))) = fs"
    by (simp_all add: initial_def)
  obtain e st' where p: "process_images L folder_path ?ps (initial fs) = (e, st')"
    by (cases "process_images L folder_path ?ps (initial fs)")
  with r have "e = None" "\<not> has_data st'" "files st' = fs" by simp_all
  with p show "fst (create_kmz_with_fan_overlay L fs entries folder_path output_kmz fan_image_path)
                 = Some no_gps_error"
    and "files (snd (create_kmz_with_fan_overlay L fs entries folder_path output_kmz
                       fan_image_path)) = fs"
    by (simp_all add: create_kmz_with_fan_overlay_def)
qed

lemma demo_loop_plain:
  "process_images demo_lib ''/data'' (image_paths ''/data'' [''b.png'', ''notes.txt'']) (initial demo_fs)
     = (None, initial demo_fs)"
  by (simp add: demo_paths process_image_def initial_def plain_metadata)

theorem no_gps_metadata_fails_witness:
  "process_images demo_lib ''/data'' (image_paths ''/data'' [''b.png'', ''notes.txt'']) (initial demo_fs)
     = (None, initial demo_fs)
   \<and> \<not> has_data (initial demo_fs)
   \<and> image_paths ''/data'' [''b.png'', ''notes.txt''] = [''/data/b.png'']
   \<and> snd (get_gps_metadata demo_lib demo_fs ''/data/b.png'') = None
   \<and> (has_data (initial demo_fs) \<longleftrightarrow> kmz_images (initial demo_fs) \<noteq> [])
   \<and> create_kmz_with_fan_overlay demo_lib demo_fs [''b.png'', ''notes.txt''] ''/data''
        ''/data/out.kmz'' ''/data/Fan.png'' = (Some no_gps_error, initial demo_fs)
   \<and> files (snd (create_kmz_with_fan_overlay demo_lib demo_fs [''b.png'', ''notes.txt''] ''/data''
        ''/data/out.kmz'' ''/data/Fan.png'')) ''/data/out.kmz'' = None"
proof -
  have h1: "process_images demo_lib ''/data'' (image_paths ''/data'' [''b.png'', ''notes.txt''])
              (initial demo_fs) = (None, initial demo_fs)"
    by (rule demo_loop_plain)
  have h2: "\<not> has_data (initial demo_fs)" by (simp add: initial_def)
  have h3: "\<forall>p \<in> set (image_paths ''/data'' [''b.png'', ''notes.txt'']).
              snd (get_gps_metadata demo_lib demo_fs p) = None"
    by (simp add: demo_paths plain_metadata)
  have out: "demo_fs ''/data/out.kmz'' = None" by (simp add: demo_fs_def)
  have h4: "snd (get_gps_metadata demo_lib demo_fs ''/data/b.png'') = None"
    by (simp add: plain_metadata)
  show ?thesis
    using h1 h2 h3 h4 out demo_paths
      no_gps_metadata_fails [of demo_lib "''/data''" "[''b.png'', ''notes.txt'']" demo_fs
        "initial demo_fs" "''/data/out.kmz''" "''/data/Fan.png''"]
    by simp
qed

lemma demo_open: "image_open (files (initial demo_fs)) ''/data/a.jpg'' = Inr demo_image"
  by (simp add: image_open_def initial_def demo_fs_def)

text \<open>
  Claim C2. For an image with metadata whose heading converts to the number \<open>h\<close>
  (of any sign), the iteration completes and the ground overlay it appends has the
  rotation \<open>- \<bar>h\<bar>\<close>, which is at most 0.
\<close>

theorem overlay_rotation:
  assumes "get_gps_metadata L (files st) p = (ms, Some md)"
    and "latitude md = Some la" and "longitude md = Some lo"
    and "py_float L (orientation md) = Inr h"
  shows "\<exists>st' ov pt. process_image L folder_path st p = (None, st')
           \<and> features st' = features st @ [GroundOverlay ov, Point pt]
           \<and> rotation ov = - \<bar>h\<bar> \<and> rotation ov \<le> 0"
proof -
  from process_image_ok [OF assms, of folder_path]
  obtain st' pt where
    "process_image L folder_path st p = (None, st')"
    "features st' = features st @
       [GroundOverlay \<lparr>ov_name = ''Overlay - '' @ basename p, ov_href = ''Fan.png'',
          north = la + overlay_size / 2, south = la - overlay_size / 2,
          east = lo + overlay_size / 2, west = lo - overlay_size / 2,
          rotation = - \<bar>h\<bar>\<rparr>, Point pt]"
    by blast
  then show ?thesis by force
qed

theorem overlay_rotation_witness:
  "get_gps_metadata demo_lib (files (initial demo_fs)) ''/data/a.jpg'' =
     ([], Some \<lparr>latitude = Some (40 + 26 / 60 + 46 / 3600),
                longitude = Some (- (79 + 58 / 60 + 56 / 3600)),
                altitude = 300, orientation = PFloat 45,
                date_created = ''2023-06-01 10:00:00''\<rparr>)
   \<and> py_float demo_lib (PFloat 45) = Inr 45
   \<and> (\<exists>st' ov pt. process_image demo_lib ''/data'' (initial demo_fs) ''/data/a.jpg'' = (None, st')
          \<and> features st' = [GroundOverlay ov, Point pt]
          \<and> rotation ov = - 45 \<and> rotation ov \<le> 0)"
proof -
  let ?md = "\<lparr>latitude = Some (40 + 26 / 60 + 46 / 3600),
                longitude = Some (- (79 + 58 / 60 + 56 / 3600)),
                altitude = 300, orientation = PFloat 45,
                date_created = ''2023-06-01 10:00:00''\<rparr>"
  have m: "get_gps_metadata demo_lib (files (initial demo_fs)) ''/data/a.jpg'' = ([], Some ?md)"
    using demo_metadata by (simp add: initial_def)
  have la: "latitude ?md = Some (40 + 26 / 60 + 46 / 3600)" by simp
  have lo: "longitude ?md = Some (- (79 + 58 / 60 + 56 / 3600))" by simp
  have h: "py_float demo_lib (orientation ?md) = Inr 45" by simp
  from overlay_rotation [OF m la lo h, of "''/data''"] m h show ?thesis
    by (simp add: initial_def)
qed

text \<open>
  Claim C7. For an image with metadata at latitude \<open>lat\<close> and longitude \<open>lon\<close>, the
  ground overlay appended has north and south at \<open>lat\<close> plus and minus half the overlay
  size, east and west at \<open>lon\<close> plus and minus half of it, the overlay size being
  0.0001; so the box is one overlay size wide and high and centred on the coordinate
  (exactly, in real arithmetic).
\<close>

theorem overlay_box:
  assumes "get_gps_metadata L (files st) p = (ms, Some md)"
    and "latitude md = Some lat" and "longitude md = Some lon"
    and "py_float L (orientation md) = Inr h"
  shows "\<exists>st' ov pt. process_image L folder_path st p = (None, st')
           \<and> features st' = features st @ [GroundOverlay ov, Point pt]
           \<and> overlay_size = 1 / 10000
           \<and> north ov = lat + overlay_size / 2 \<and> south ov = lat - overlay_size / 2
           \<and> east ov = lon + overlay_size / 2 \<and> west ov = lon - overlay_size / 2
           \<and> north ov - south ov = overlay_size \<and> east ov - west ov = overlay_size
           \<and> (north ov + south ov) / 2 = lat \<and> (east ov + west ov) / 2 = lon"
proof -
  from process_image_ok [OF assms, of folder_path]
  obtain st' pt where
    "process_image L folder_path st p = (None, st')"
    "features st' = features st @
       [GroundOverlay \<lparr>ov_name = ''Overlay - '' @ basename p, ov_href = ''Fan.png'',
          north = lat + overlay_size / 2, south = lat - overlay_size / 2,
          east = lon + overlay_size / 2, west = lon - overlay_size / 2,
          rotation = - \<bar>h\<bar>\<rparr>, Point pt]"
    by blast
  moreover have "overlay_size = 1 / 10000" by (simp add: overlay_size_def)
  ultimately show ?thesis by force
qed

theorem overlay_box_witness:
  "get_gps_metadata demo_lib (files (initial demo_fs)) ''/data/a.jpg'' =
     ([], Some \<lparr>latitude = Some (40 + 26 / 60 + 46 / 3600),
                longitude = Some (- (79 + 58 / 60 + 56 / 3600)),
                altitude = 300, orientation = PFloat 45,
                date_created = ''2023-06-01 10:00:00''\<rparr>)
   \<and> py_float demo_lib (PFloat 45) = Inr 45
   \<and> (\<exists>st' ov pt. process_image demo_lib ''/data'' (initial demo_fs) ''/data/a.jpg'' = (None, st')
          \<and> features st' = [GroundOverlay ov, Point pt]
          \<and> north ov = 40 + 26 / 60 + 46 / 3600 + 1 / 20000
          \<and> south ov = 40 + 26 / 60 + 46 / 3600 - 1 / 20000
          \<and> east ov = - (79 + 58 / 60 + 56 / 3600) + 1 / 20000
          \<and> west ov = - (79 + 58 / 60 + 56 / 3600) - 1 / 20000)"
proof -
  let ?md = "\<lparr>latitude = Some (40 + 26 / 60 + 46 / 3600),
                longitude = Some (- (79 + 58 / 60 + 56 / 3600)),
                altitude = 300, orientation = PFloat 45,
                date_created = ''2023-06-01 10:00:00''\<rparr>"
  have m: "get_gps_metadata demo_lib (files (initial demo_fs)) ''/data/a.jpg'' = ([], Some ?md)"
    using demo_metadata by (simp add: initial_def)
  have la: "latitude ?md = Some (40 + 26 / 60 + 46 / 3600)" by simp
  have lo: "longitude ?md = Some (- (79 + 58 / 60 + 56 / 3600))" by simp
  have h: "py_float demo_lib (orientation ?md) = Inr 45" by simp
  from overlay_box [OF m la lo h, of "''/data''"] m h show ?thesis
    by (simp add: initial_def overlay_size_def) blast
qed

lemma basename_path_join:
  assumes "CHR ''/'' \<notin> set f"
  shows "basename (path_join folder f) = f"
proof -
  have nf: "\<not> (f \<noteq> [] \<and> hd f = CHR ''/'')"
    using assms by (cases f) auto
  have tw: "takeWhile (\<lambda>c. c \<noteq> CHR ''/'') (rev f @ ys) = rev f @ takeWhile (\<lambda>c. c \<noteq> CHR ''/'') ys" for ys
    by (rule takeWhile_append2) (use assms in auto)
  show ?thesis
  proof (cases "folder = [] \<or> last folder = CHR ''/''")
    case True
    then have pj: "path_join folder f = folder @ f"
      using nf by (auto simp: path_join_def)
    have "takeWhile (\<lambda>c. c \<noteq> CHR ''/'') (rev folder) = []"
    proof (cases "folder = []")
      case True
      then show ?thesis by simp
    next
      case False
      with True have "hd (rev folder) = CHR ''/''" by (simp add: hd_rev)
      with False show ?thesis by (cases "rev folder") auto
    qed
    with pj tw show ?thesis by (simp add: basename_def)
  next
    case False
    then have pj: "path_join folder f = folder @ ''/'' @ f"
      using nf by (auto simp: path_join_def)
    show ?thesis by (simp add: pj basename_def tw)
  qed
qed

lemma get_gps_metadata_has_tags:
  assumes "get_gps_metadata L fs p = (ms, Some md)"
  shows "\<exists>im ex. fs p = Some (ImageFile im) \<and> image_open fs p = Inr im
           \<and> getexif im = Inr (Some ex)"
proof -
  from get_gps_metadata_SomeD [OF assms] obtain im ex where
    o: "image_open fs p = Inr im" and g: "getexif im = Inr (Some ex)" by blast
  from o have "fs p = Some (ImageFile im)"
    by (auto simp: image_open_def split: option.splits content.splits)
  with o g show ?thesis by blast
qed

lemma process_image_saves:
  assumes "get_gps_metadata L (files st) p = (ms, Some md)"
    and "py_float L (orientation md) = Inr h"
    and "image_open (files st) p = Inr im"
  shows "files (snd (process_image L folder st p)) =
           (files st)(path_join folder (basename p) \<mapsto>
              saved_file L (snd (correct_image_orientation L im)))"
  using assms
  by (simp add: process_image_def Let_def split: prod.splits sum.splits)

text \<open>
  Claim C9. A candidate image is reached as the folder joined with a directory entry
  \<open>f\<close> (which contains no separator). The path the corrected image is saved to, the
  folder joined with the base name of the image path, is that very path; so when the
  image has metadata and its heading is a number, the iteration replaces the content of
  the original file, an image with a tag table, by the encoded corrected image, which
  has none, and touches no other path. The file at the path of the original is thus
  changed even when the image needed no rotation.
\<close>

theorem corrected_image_overwrites_original:
  assumes "CHR ''/'' \<notin> set f"
    and "get_gps_metadata L (files st) (path_join folder_path f) = (ms, Some md)"
    and "py_float L (orientation md) = Inr h"
  shows "path_join folder_path (basename (path_join folder_path f)) = path_join folder_path f
         \<and> (\<exists>im ex. files st (path_join folder_path f) = Some (ImageFile im)
               \<and> getexif im = Inr (Some ex)
               \<and> files (snd (process_image L folder_path st (path_join folder_path f))) =
                   (files st)(path_join folder_path f \<mapsto>
                      ImageFile \<lparr>pixels = encode_px L
                                   (pixels (snd (correct_image_orientation L im))),
                                 getexif = Inr None\<rparr>)
               \<and> files (snd (process_image L folder_path st (path_join folder_path f)))
                     (path_join folder_path f)
                   \<noteq> files st (path_join folder_path f))"
proof -
  let ?p = "path_join folder_path f"
  have eq: "path_join folder_path (basename ?p) = ?p"
    using assms(1) by (simp add: basename_path_join)
  from get_gps_metadata_has_tags [OF assms(2)] obtain im ex where
    c: "files st ?p = Some (ImageFile im)" and o: "image_open (files st) ?p = Inr im"
    and g: "getexif im = Inr (Some ex)" by blast
  have sv: "files (snd (process_image L folder_path st ?p)) =
              (files st)(?p \<mapsto> saved_file L (snd (correct_image_orientation L im)))"
    using process_image_saves [OF assms(2,3) o, of folder_path] eq by simp
  have ne: "saved_file L (snd (correct_image_orientation L im)) \<noteq> ImageFile im"
  proof
    assume "saved_file L (snd (correct_image_orientation L im)) = ImageFile im"
    then have "getexif im =
                 getexif \<lparr>pixels = encode_px L (pixels (snd (correct_image_orientation L im))),
                          getexif = Inr None\<rparr>"
      by (simp add: saved_file_def)
    with g show False by simp
  qed
  from sv have "files (snd (process_image L folder_path st ?p)) ?p
                  = Some (saved_file L (snd (correct_image_orientation L im)))"
    by simp
  with c ne have "files (snd (process_image L folder_path st ?p)) ?p \<noteq> files st ?p"
    by simp
  with eq c g sv show ?thesis
    by (auto simp: saved_file_def)
qed

lemma demo_join: "path_join ''/data'' ''a.jpg'' = ''/data/a.jpg''"
  by (simp add: path_join_def)

lemma demo_join_unrotated: "path_join ''/data'' ''d.jpg'' = ''/data/d.jpg''"
  by (simp add: path_join_def)

lemma orientation_key_274: "orientation_key = 274"
  by (simp add: orientation_key_def TAGS_def)

lemma demo_corrected:
  "correct_image_orientation demo_lib demo_image = ([], \<lparr>pixels = 270, getexif = Inl AttributeError\<rparr>)"
  by (simp add: correct_image_orientation_def demo_image_def orientation_key_274 rotate_def demo_lib_def)

lemma unrotated_corrected:
  "correct_image_orientation demo_lib digitized_first_image = ([], digitized_first_image)"
  by (simp add: correct_image_orientation_def digitized_first_image_def orientation_key_274)

lemma unrotated_pixels: "pixels digitized_first_image = 0"
  by (simp add: digitized_first_image_def)

lemma unrotated_metadata:
  "get_gps_metadata demo_lib demo_fs ''/data/d.jpg'' =
     ([], Some \<lparr>latitude = Some (40 + 26 / 60 + 46 / 3600),
                longitude = Some (- (79 + 58 / 60 + 56 / 3600)),
                altitude = 0, orientation = PInt 0,
                date_created = ''2020-01-01 00:00:00''\<rparr>)"
  by (simp add: demo_defs extractor_defs)

theorem corrected_image_overwrites_original_witness:
  "CHR ''/'' \<notin> set ''a.jpg''
   \<and> get_gps_metadata demo_lib (files (initial demo_fs)) (path_join ''/data'' ''a.jpg'') =
     ([], Some \<lparr>latitude = Some (40 + 26 / 60 + 46 / 3600),
                longitude = Some (- (79 + 58 / 60 + 56 / 3600)),
                altitude = 300, orientation = PFloat 45,
                date_created = ''2023-06-01 10:00:00''\<rparr>)
   \<and> py_float demo_lib (PFloat 45) = Inr 45
   \<and> files (snd (process_image demo_lib ''/data'' (initial demo_fs) ''/data/a.jpg'')) =
       demo_fs(''/data/a.jpg'' \<mapsto> ImageFile \<lparr>pixels = 270, getexif = Inr None\<rparr>)
   \<and> CHR ''/'' \<notin> set ''d.jpg''
   \<and> get_gps_metadata demo_lib (files (initial demo_fs)) (path_join ''/data'' ''d.jpg'') =
     ([], Some \<lparr>latitude = Some (40 + 26 / 60 + 46 / 3600),
                longitude = Some (- (79 + 58 / 60 + 56 / 3600)),
                altitude = 0, orientation = PInt 0,
                date_created = ''2020-01-01 00:00:00''\<rparr>)
   \<and> py_float demo_lib (PInt 0) = Inr 0
   \<and> correct_image_orientation demo_lib digitized_first_image = ([], digitized_first_image)
   \<and> files (snd (process_image demo_lib ''/data'' (initial demo_fs) ''/data/d.jpg'')) =
       demo_fs(''/data/d.jpg'' \<mapsto> ImageFile \<lparr>pixels = 0, getexif = Inr None\<rparr>)
   \<and> files (snd (process_image demo_lib ''/data'' (initial demo_fs) ''/data/d.jpg'')) ''/data/d.jpg''
       \<noteq> demo_fs ''/data/d.jpg''"
proof -
  let ?md = "\<lparr>latitude = Some (40 + 26 / 60 + 46 / 3600),
                longitude = Some (- (79 + 58 / 60 + 56 / 3600)),
                altitude = 300, orientation = PFloat 45,
                date_created = ''2023-06-01 10:00:00''\<rparr>"
  let ?md' = "\<lparr>latitude = Some (40 + 26 / 60 + 46 / 3600),
                longitude = Some (- (79 + 58 / 60 + 56 / 3600)),
                altitude = 0, orientation = PInt 0,
                date_created = ''2020-01-01 00:00:00''\<rparr>"
  have f: "files (initial demo_fs) = demo_fs" by (simp add: initial_def)
  have s: "CHR ''/'' \<notin> set ''a.jpg''" by simp
  have m: "get_gps_metadata demo_lib (files (initial demo_fs)) (path_join ''/data'' ''a.jpg'')
             = ([], Some ?md)"
    using demo_metadata by (simp add: f demo_join)
  have h: "py_float demo_lib (orientation ?md) = Inr 45" by simp
  have c: "demo_fs ''/data/a.jpg'' = Some (ImageFile demo_image)"
    by (simp add: demo_fs_def)
  have s': "CHR ''/'' \<notin> set ''d.jpg''" by simp
  have m': "get_gps_metadata demo_lib (files (initial demo_fs)) (path_join ''/data'' ''d.jpg'')
             = ([], Some ?md')"
    using unrotated_metadata by (simp add: f demo_join_unrotated)
  have h': "py_float demo_lib (orientation ?md') = Inr 0" by simp
  have c': "demo_fs ''/data/d.jpg'' = Some (ImageFile digitized_first_image)"
    by (simp add: demo_fs_def)
  have e: "encode_px demo_lib = (\<lambda>p. p)" by (simp add: demo_lib_def)
  from corrected_image_overwrites_original [OF s m h]
  have r: "files (snd (process_image demo_lib ''/data'' (initial demo_fs) ''/data/a.jpg'')) =
       demo_fs(''/data/a.jpg'' \<mapsto> ImageFile \<lparr>pixels = 270, getexif = Inr None\<rparr>)"
    by (auto simp: demo_join c demo_corrected f e)
  from corrected_image_overwrites_original [OF s' m' h']
  have r': "files (snd (process_image demo_lib ''/data'' (initial demo_fs) ''/data/d.jpg'')) =
       demo_fs(''/data/d.jpg'' \<mapsto> ImageFile \<lparr>pixels = 0, getexif = Inr None\<rparr>)
     \<and> files (snd (process_image demo_lib ''/data'' (initial demo_fs) ''/data/d.jpg'')) ''/data/d.jpg''
       \<noteq> demo_fs ''/data/d.jpg''"
    by (auto simp: demo_join_unrotated c' unrotated_corrected f e unrotated_pixels)
  have h0: "py_float demo_lib (PFloat 45) = Inr 45" by simp
  have h0': "py_float demo_lib (PInt 0) = Inr 0" by simp
  from s m h0 r s' m' h0' r' unrotated_corrected show ?thesis
    by blast
qed

text \<open>
  Claim C8. The orientation tag is the one with id 274. When the tag table holds under
  it a value equal to 3, 6 or 8, the image returned is the image rotated by 180, 270 or
  90 degrees (its pixel data rotated by the library, canvas expanded); with any other
  value, without the tag, or without a tag table the image is returned as it is; and
  when reading the tags raises, the image is returned as it is with a warning. Equality
  is Python's comparison with an integer, so the float 3.0 counts as 3.
\<close>

theorem orientation_corrector:
  "(getexif im = Inr (Some ex) \<and> map_of ex 274 = Some v \<and> py_eq_int v 3
      \<longrightarrow> correct_image_orientation L im = ([], rotate L 180 im))
   \<and> (getexif im = Inr (Some ex) \<and> map_of ex 274 = Some v \<and> py_eq_int v 6
      \<longrightarrow> correct_image_orientation L im = ([], rotate L 270 im))
   \<and> (getexif im = Inr (Some ex) \<and> map_of ex 274 = Some v \<and> py_eq_int v 8
      \<longrightarrow> correct_image_orientation L im = ([], rotate L 90 im))
   \<and> (getexif im = Inr (Some ex) \<and> map_of ex 274 = Some v
        \<and> \<not> py_eq_int v 3 \<and> \<not> py_eq_int v 6 \<and> \<not> py_eq_int v 8
      \<longrightarrow> correct_image_orientation L im = ([], im))
   \<and> (getexif im = Inr (Some ex) \<and> map_of ex 274 = None
      \<longrightarrow> correct_image_orientation L im = ([], im))
   \<and> (getexif im = Inr None \<longrightarrow> correct_image_orientation L im = ([], im))
   \<and> (getexif im = Inl e \<longrightarrow> correct_image_orientation L im = ([OrientationWarning e], im))
   \<and> pixels (rotate L angle im) = rotate_px L angle (pixels im)"
proof -
  have three: "py_eq_int v 3 \<Longrightarrow> \<not> py_eq_int v 6 \<and> \<not> py_eq_int v 8"
    by (cases v) auto
  have six: "py_eq_int v 6 \<Longrightarrow> \<not> py_eq_int v 8"
    by (cases v) auto
  show ?thesis
    using three six
    by (auto simp: correct_image_orientation_def orientation_key_274 rotate_def)
qed

theorem orientation_corrector_witness:
  "correct_image_orientation demo_lib \<lparr>pixels = 0, getexif = Inr (Some [(274, PInt 3)])\<rparr>
     = ([], \<lparr>pixels = 180, getexif = Inl AttributeError\<rparr>)
   \<and> correct_image_orientation demo_lib \<lparr>pixels = 0, getexif = Inr (Some [(274, PInt 6)])\<rparr>
     = ([], \<lparr>pixels = 270, getexif = Inl AttributeError\<rparr>)
   \<and> correct_image_orientation demo_lib \<lparr>pixels = 0, getexif = Inr (Some [(274, PInt 8)])\<rparr>
     = ([], \<lparr>pixels = 90, getexif = Inl AttributeError\<rparr>)
   \<and> correct_image_orientation demo_lib \<lparr>pixels = 0, getexif = Inr (Some [(274, PInt 1)])\<rparr>
     = ([], \<lparr>pixels = 0, getexif = Inr (Some [(274, PInt 1)])\<rparr>)
   \<and> correct_image_orientation demo_lib \<lparr>pixels = 0, getexif = Inr (Some [(306, PInt 3)])\<rparr>
     = ([], \<lparr>pixels = 0, getexif = Inr (Some [(306, PInt 3)])\<rparr>)
   \<and> correct_image_orientation demo_lib \<lparr>pixels = 0, getexif = Inr None\<rparr>
     = ([], \<lparr>pixels = 0, getexif = Inr None\<rparr>)
   \<and> correct_image_orientation demo_lib \<lparr>pixels = 0, getexif = Inl AttributeError\<rparr>
     = ([OrientationWarning AttributeError], \<lparr>pixels = 0, getexif = Inl AttributeError\<rparr>)"
  using
    orientation_corrector [of "\<lparr>pixels = 0, getexif = Inr (Some [(274, PInt 3)])\<rparr>"
      "[(274, PInt 3)]" "PInt 3" demo_lib AttributeError 0]
    orientation_corrector [of "\<lparr>pixels = 0, getexif = Inr (Some [(274, PInt 6)])\<rparr>"
      "[(274, PInt 6)]" "PInt 6" demo_lib AttributeError 0]
    orientation_corrector [of "\<lparr>pixels = 0, getexif = Inr (Some [(274, PInt 8)])\<rparr>"
      "[(274, PInt 8)]" "PInt 8" demo_lib AttributeError 0]
    orientation_corrector [of "\<lparr>pixels = 0, getexif = Inr (Some [(274, PInt 1)])\<rparr>"
      "[(274, PInt 1)]" "PInt 1" demo_lib AttributeError 0]
    orientation_corrector [of "\<lparr>pixels = 0, getexif = Inr (Some [(306, PInt 3)])\<rparr>"
      "[(306, PInt 3)]" "PInt 3" demo_lib AttributeError 0]
    orientation_corrector [of "\<lparr>pixels = 0, getexif = Inr None\<rparr>"
      "[]" "PInt 3" demo_lib AttributeError 0]
    orientation_corrector [of "\<lparr>pixels = 0, getexif = Inl AttributeError\<rparr>"
      "[]" "PInt 3" demo_lib AttributeError 0]
  by (simp add: rotate_def demo_lib_def)

text \<open>
  Claim C6. When the GPS sub-block holds a latitude and a longitude that both convert to
  a number, both references, and an altitude that is a number (or none), the extractor
  returns metadata, and in it the latitude is the converted value negated exactly when
  the latitude reference is the string "S", and the longitude is the converted value
  negated exactly when the longitude reference is the string "W"; with any other
  reference, such as "N" and "E", the converted values are returned unchanged.
\<close>

theorem hemisphere_sign:
  assumes "image_open fs p = Inr im" and "getexif im = Inr (Some ex)"
    and "scan_exif L ex ([], None) = Inr (gps_info, d)"
    and "map_of gps_info (TName ''GPSLatitude'') = Some lat_v"
    and "map_of gps_info (TName ''GPSLongitude'') = Some lon_v"
    and "convert_to_degrees L lat_v = (w1, Some la)"
    and "convert_to_degrees L lon_v = (w2, Some lo)"
    and "map_of gps_info (TName ''GPSLatitudeRef'') = Some lat_ref"
    and "map_of gps_info (TName ''GPSLongitudeRef'') = Some lon_ref"
    and "number_of L (case map_of gps_info (TName ''GPSAltitude'') of
                        None \<Rightarrow> PTuple [PInt 0, PInt 1] | Some a \<Rightarrow> a) = Inr alt"
  shows "\<exists>md. get_gps_metadata L fs p = (w1 @ w2, Some md)
           \<and> latitude md = Some (if lat_ref = PStr ''S'' then - la else la)
           \<and> longitude md = Some (if lon_ref = PStr ''W'' then - lo else lo)"
proof -
  have ne: "ex \<noteq> []" "gps_info \<noteq> []"
    using assms(3,4) by auto
  have "\<exists>md. build_metadata L gps_info (resolve_date L p d) = (w1 @ w2, Inr (Some md))
          \<and> latitude md = Some (if lat_ref = PStr ''S'' then - la else la)
          \<and> longitude md = Some (if lon_ref = PStr ''W'' then - lo else lo)"
    using assms(4-10) by (simp add: build_metadata_def negate_if_ref_def bind_err_def)
  then obtain md where
    b: "build_metadata L gps_info (resolve_date L p d) = (w1 @ w2, Inr (Some md))"
    and s: "latitude md = Some (if lat_ref = PStr ''S'' then - la else la)"
      "longitude md = Some (if lon_ref = PStr ''W'' then - lo else lo)"
    by blast
  from b assms(1,2,3) ne have "get_gps_metadata L fs p = (w1 @ w2, Some md)"
    by (simp add: get_gps_metadata_def try_extract_def)
  with s show ?thesis by blast
qed

lemma demo_scan:
  "scan_exif demo_lib [(274, PInt 6), (36867, PStr ''2023:06:01 10:00:00''),
      (34853, PDict [(1, PStr ''N''), (2, dms 40 26 46), (3, PStr ''W''),
                     (4, dms 79 58 56), (6, PTuple [PInt 300, PInt 1]), (17, PFloat 45)])]
      ([], None)
   = Inr ([(TName ''GPSLatitudeRef'', PStr ''N''), (TName ''GPSLatitude'', dms 40 26 46),
           (TName ''GPSLongitudeRef'', PStr ''W''), (TName ''GPSLongitude'', dms 79 58 56),
           (TName ''GPSAltitude'', PTuple [PInt 300, PInt 1]),
           (TName ''GPSImgDirection'', PFloat 45)],
          Some ''2023-06-01 10:00:00'')"
  by (simp add: tag_get_def TAGS_def GPSTAGS_def date_step_def demo_lib_def demo_reformat_def)

lemma south_scan:
  "scan_exif demo_lib
      [(34853, PDict [(1, PStr ''S''), (2, dms 33 51 54), (3, PStr ''E''), (4, dms 151 12 36)])]
      ([], None)
   = Inr ([(TName ''GPSLatitudeRef'', PStr ''S''), (TName ''GPSLatitude'', dms 33 51 54),
           (TName ''GPSLongitudeRef'', PStr ''E''), (TName ''GPSLongitude'', dms 151 12 36)],
          None)"
  by (simp add: tag_get_def TAGS_def GPSTAGS_def)

lemma demo_convert:
  "convert_to_degrees demo_lib (dms a b c) = ([], Some (of_int a + of_int b / 60 + of_int c / 3600))"
  by (simp add: dms_def convert_to_degrees_def to_degrees_def component_def number_of_def
        bind_err_def py_div_def)

theorem hemisphere_sign_witness:
  "image_open demo_fs ''/data/a.jpg'' = Inr demo_image
   \<and> convert_to_degrees demo_lib (dms 40 26 46) = ([], Some (40 + 26 / 60 + 46 / 3600))
   \<and> convert_to_degrees demo_lib (dms 79 58 56) = ([], Some (79 + 58 / 60 + 56 / 3600))
   \<and> (\<exists>md. get_gps_metadata demo_lib demo_fs ''/data/a.jpg'' = ([], Some md)
          \<and> latitude md = Some (40 + 26 / 60 + 46 / 3600)
          \<and> longitude md = Some (- (79 + 58 / 60 + 56 / 3600)))
   \<and> image_open demo_fs ''/data/s.jpg'' = Inr south_image
   \<and> convert_to_degrees demo_lib (dms 33 51 54) = ([], Some (33 + 51 / 60 + 54 / 3600))
   \<and> convert_to_degrees demo_lib (dms 151 12 36) = ([], Some (151 + 12 / 60 + 36 / 3600))
   \<and> (\<exists>md. get_gps_metadata demo_lib demo_fs ''/data/s.jpg'' = ([], Some md)
          \<and> latitude md = Some (- (33 + 51 / 60 + 54 / 3600))
          \<and> longitude md = Some (151 + 12 / 60 + 36 / 3600))"
proof -
  let ?g = "[(TName ''GPSLatitudeRef'', PStr ''N''), (TName ''GPSLatitude'', dms 40 26 46),
           (TName ''GPSLongitudeRef'', PStr ''W''), (TName ''GPSLongitude'', dms 79 58 56),
           (TName ''GPSAltitude'', PTuple [PInt 300, PInt 1]),
           (TName ''GPSImgDirection'', PFloat 45)]"
  let ?ex = "[(274, PInt 6), (36867, PStr ''2023:06:01 10:00:00''),
      (34853, PDict [(1, PStr ''N''), (2, dms 40 26 46), (3, PStr ''W''),
                     (4, dms 79 58 56), (6, PTuple [PInt 300, PInt 1]), (17, PFloat 45)])]"
  have a1: "image_open demo_fs ''/data/a.jpg'' = Inr demo_image"
    by (simp add: image_open_def demo_fs_def)
  have a2: "getexif demo_image = Inr (Some ?ex)" by (simp add: demo_image_def)
  have a3: "scan_exif demo_lib ?ex ([], None) = Inr (?g, Some ''2023-06-01 10:00:00'')"
    by (rule demo_scan)
  have a4: "map_of ?g (TName ''GPSLatitude'') = Some (dms 40 26 46)" by simp
  have a5: "map_of ?g (TName ''GPSLongitude'') = Some (dms 79 58 56)" by simp
  have a6: "convert_to_degrees demo_lib (dms 40 26 46) = ([], Some (40 + 26 / 60 + 46 / 3600))"
    using demo_convert [of 40 26 46] by simp
  have a7: "convert_to_degrees demo_lib (dms 79 58 56) = ([], Some (79 + 58 / 60 + 56 / 3600))"
    using demo_convert [of 79 58 56] by simp
  have a8: "map_of ?g (TName ''GPSLatitudeRef'') = Some (PStr ''N'')" by simp
  have a9: "map_of ?g (TName ''GPSLongitudeRef'') = Some (PStr ''W'')" by simp
  have a10: "number_of demo_lib (case map_of ?g (TName ''GPSAltitude'') of
               None \<Rightarrow> PTuple [PInt 0, PInt 1] | Some a \<Rightarrow> a) = Inr 300"
    by (simp add: number_of_def bind_err_def py_div_def)
  let ?h = "[(TName ''GPSLatitudeRef'', PStr ''S''), (TName ''GPSLatitude'', dms 33 51 54),
           (TName ''GPSLongitudeRef'', PStr ''E''), (TName ''GPSLongitude'', dms 151 12 36)]"
  let ?ey = "[(34853, PDict [(1, PStr ''S''), (2, dms 33 51 54), (3, PStr ''E''),
                             (4, dms 151 12 36)])]"
  have b1: "image_open demo_fs ''/data/s.jpg'' = Inr south_image"
    by (simp add: image_open_def demo_fs_def)
  have b2: "getexif south_image = Inr (Some ?ey)" by (simp add: south_image_def)
  have b3: "scan_exif demo_lib ?ey ([], None) = Inr (?h, None)"
    by (rule south_scan)
  have b4: "map_of ?h (TName ''GPSLatitude'') = Some (dms 33 51 54)" by simp
  have b5: "map_of ?h (TName ''GPSLongitude'') = Some (dms 151 12 36)" by simp
  have b6: "convert_to_degrees demo_lib (dms 33 51 54) = ([], Some (33 + 51 / 60 + 54 / 3600))"
    using demo_convert [of 33 51 54] by simp
  have b7: "convert_to_degrees demo_lib (dms 151 12 36) = ([], Some (151 + 12 / 60 + 36 / 3600))"
    using demo_convert [of 151 12 36] by simp
  have b8: "map_of ?h (TName ''GPSLatitudeRef'') = Some (PStr ''S'')" by simp
  have b9: "map_of ?h (TName ''GPSLongitudeRef'') = Some (PStr ''E'')" by simp
  have b10: "number_of demo_lib (case map_of ?h (TName ''GPSAltitude'') of
               None \<Rightarrow> PTuple [PInt 0, PInt 1] | Some a \<Rightarrow> a) = Inr 0"
    by (simp add: number_of_def bind_err_def py_div_def)
  have north_west:
    "\<exists>md. get_gps_metadata demo_lib demo_fs ''/data/a.jpg'' = ([], Some md)
          \<and> latitude md = Some (40 + 26 / 60 + 46 / 3600)
          \<and> longitude md = Some (- (79 + 58 / 60 + 56 / 3600))"
    using hemisphere_sign [OF a1 a2 a3 a4 a5 a6 a7 a8 a9 a10] by simp
  have south_east:
    "\<exists>md. get_gps_metadata demo_lib demo_fs ''/data/s.jpg'' = ([], Some md)
          \<and> latitude md = Some (- (33 + 51 / 60 + 54 / 3600))
          \<and> longitude md = Some (151 + 12 / 60 + 36 / 3600)"
    using hemisphere_sign [OF b1 b2 b3 b4 b5 b6 b7 b8 b9 b10] by simp
  from a1 a6 a7 north_west b1 b6 b7 south_east show ?thesis
    by blast
qed

text \<open>
  Claim C10. When the GPS sub-block holds a latitude and a longitude but lacks the
  latitude reference or the longitude reference, the extractor returns \<open>None\<close> and
  its last message is the extraction error for that image, reporting the \<open>KeyError\<close>
  of the missing reference (or the \<open>TypeError\<close> of negating a coordinate that did not
  convert, when that comes first). No metadata with an assumed hemisphere is returned.
\<close>

theorem missing_reference_gives_none:
  assumes "image_open fs p = Inr im" and "getexif im = Inr (Some ex)"
    and "scan_exif L ex ([], None) = Inr (gps_info, d)"
    and "map_of gps_info (TName ''GPSLatitude'') = Some lat_v"
    and "map_of gps_info (TName ''GPSLongitude'') = Some lon_v"
    and "map_of gps_info (TName ''GPSLatitudeRef'') = None
         \<or> map_of gps_info (TName ''GPSLongitudeRef'') = None"
  shows "\<exists>ws e. get_gps_metadata L fs p = (ws @ [ExtractError p e], None)
           \<and> (e = KeyError \<or> e = TypeError)"
proof -
  have ne: "ex \<noteq> []" "gps_info \<noteq> []"
    using assms(3,4) by auto
  obtain w1 lat where c1: "convert_to_degrees L lat_v = (w1, lat)"
    by (cases "convert_to_degrees L lat_v")
  obtain w2 lon where c2: "convert_to_degrees L lon_v = (w2, lon)"
    by (cases "convert_to_degrees L lon_v")
  have "\<exists>e. snd (build_metadata L gps_info (resolve_date L p d)) = Inl e
          \<and> (e = KeyError \<or> e = TypeError)"
    using assms(4,5,6) c1 c2
    by (auto simp: build_metadata_def negate_if_ref_def bind_err_def
             split: option.splits)
  then obtain e where e: "snd (build_metadata L gps_info (resolve_date L p d)) = Inl e"
    "e = KeyError \<or> e = TypeError" by blast
  obtain ws r where b: "build_metadata L gps_info (resolve_date L p d) = (ws, r)"
    by (cases "build_metadata L gps_info (resolve_date L p d)")
  with e have "r = Inl e" by simp
  with b assms(1,2,3) ne have "get_gps_metadata L fs p = (ws @ [ExtractError p e], None)"
    by (simp add: get_gps_metadata_def try_extract_def)
  with e(2) show ?thesis by blast
qed

theorem missing_reference_gives_none_witness:
  "image_open demo_fs ''/data/e.jpg'' = Inr no_ref_image
   \<and> get_gps_metadata demo_lib demo_fs ''/data/e.jpg'' = ([ExtractError ''/data/e.jpg'' KeyError], None)"
proof -
  let ?g = "[(TName ''GPSLatitude'', dms 40 26 46),
           (TName ''GPSLongitudeRef'', PStr ''W''), (TName ''GPSLongitude'', dms 79 58 56)]"
  let ?ex = "[(34853, PDict [(2, dms 40 26 46), (3, PStr ''W''), (4, dms 79 58 56)])]"
  have a1: "image_open demo_fs ''/data/e.jpg'' = Inr no_ref_image"
    by (simp add: image_open_def demo_fs_def)
  have a2: "getexif no_ref_image = Inr (Some ?ex)" by (simp add: no_ref_image_def)
  have a3: "scan_exif demo_lib ?ex ([], None) = Inr (?g, None)"
    by (simp add: tag_get_def TAGS_def GPSTAGS_def)
  have a4: "map_of ?g (TName ''GPSLatitude'') = Some (dms 40 26 46)" by simp
  have a5: "map_of ?g (TName ''GPSLongitude'') = Some (dms 79 58 56)" by simp
  have a6: "map_of ?g (TName ''GPSLatitudeRef'') = None
            \<or> map_of ?g (TName ''GPSLongitudeRef'') = None" by simp
  have v: "get_gps_metadata demo_lib demo_fs ''/data/e.jpg''
             = ([ExtractError ''/data/e.jpg'' KeyError], None)"
    by (simp add: demo_defs extractor_defs)
  from missing_reference_gives_none [OF a1 a2 a3 a4 a5 a6] a1 v show ?thesis
    by simp
qed

lemma short_lat_paths: "image_paths ''/data'' [''c.jpg''] = [''/data/c.jpg'']"
  by code_simp

lemma short_lat_metadata:
  "get_gps_metadata demo_lib demo_fs ''/data/c.jpg'' =
     ([ConvertWarning IndexError],
      Some \<lparr>latitude = None, longitude = Some (- (79 + 58 / 60 + 56 / 3600)),
             altitude = 0, orientation = PInt 0, date_created = ''1970-01-01 00:00:00''\<rparr>)"
  by (simp add: demo_defs extractor_defs)

text \<open>
  Claim C4, evaluated on \<open>short_lat_image\<close>, whose latitude has two components only
  and whose references are "N" and "W". The conversion of the latitude gives \<open>None\<close>
  with a warning and raises nothing; but the extractor does not test for \<open>None\<close> and
  returns metadata whose latitude is \<open>None\<close>, not the result \<open>None\<close>, and the
  conversion of the folder then stops with the \<open>TypeError\<close> of adding to \<open>None\<close>.
\<close>

theorem malformed_latitude_is_returned:
  "convert_to_degrees demo_lib (PTuple [PInt 40, PInt 26]) = ([ConvertWarning IndexError], None)
   \<and> get_gps_metadata demo_lib demo_fs ''/data/c.jpg'' =
       ([ConvertWarning IndexError],
        Some \<lparr>latitude = None, longitude = Some (- (79 + 58 / 60 + 56 / 3600)),
               altitude = 0, orientation = PInt 0, date_created = ''1970-01-01 00:00:00''\<rparr>)
   \<and> fst (create_kmz_with_fan_overlay demo_lib demo_fs [''c.jpg''] ''/data'' ''/data/out.kmz''
            ''/data/Fan.png'') = Some TypeError"
proof (intro conjI)
  show "convert_to_degrees demo_lib (PTuple [PInt 40, PInt 26]) = ([ConvertWarning IndexError], None)"
    by (simp add: convert_to_degrees_def to_degrees_def component_def number_of_def bind_err_def)
  show "get_gps_metadata demo_lib demo_fs ''/data/c.jpg'' =
       ([ConvertWarning IndexError],
        Some \<lparr>latitude = None, longitude = Some (- (79 + 58 / 60 + 56 / 3600)),
               altitude = 0, orientation = PInt 0, date_created = ''1970-01-01 00:00:00''\<rparr>)"
    by (rule short_lat_metadata)
  have opn: "image_open demo_fs ''/data/c.jpg'' = Inr short_lat_image"
    by (simp add: image_open_def demo_fs_def)
  have "fst (process_image demo_lib ''/data'' (initial demo_fs) ''/data/c.jpg'') = Some TypeError"
    by (simp add: process_image_def initial_def short_lat_metadata opn Let_def make_overlay_def
          add_opt_def bind_err_def split: prod.splits)
  then obtain st where "process_image demo_lib ''/data'' (initial demo_fs) ''/data/c.jpg''
                          = (Some TypeError, st)"
    by (cases "process_image demo_lib ''/data'' (initial demo_fs) ''/data/c.jpg''") simp
  then show "fst (create_kmz_with_fan_overlay demo_lib demo_fs [''c.jpg''] ''/data''
                   ''/data/out.kmz'' ''/data/Fan.png'') = Some TypeError"
    by (simp add: create_kmz_with_fan_overlay_def short_lat_paths)
qed

text \<open>
  What does hold of the date in every order of the tags: once a date is set, only the tag
  "DateTimeOriginal" changes it, and so a "DateTimeOriginal" that parses always wins.
\<close>

lemma scan_exif_keeps_date:
  "36867 \<notin> fst ` set ex \<Longrightarrow> \<not> no_date d \<Longrightarrow> scan_exif L ex (g, d) = Inr (g', d') \<Longrightarrow> d' = d"
proof (induction ex arbitrary: g d)
  case Nil
  then show ?case by simp
next
  case (Cons kv ex)
  obtain tag v where kv: "kv = (tag, v)" by (cases kv)
  with Cons.prems(1) have t: "tag \<noteq> 36867" and rest: "36867 \<notin> fst ` set ex" by auto
  show ?case
  proof (cases "tag_get TAGS tag")
    case (TId t')
    with Cons.prems(3) kv have "scan_exif L ex (g, d) = Inr (g', d')" by simp
    with Cons.IH [OF rest Cons.prems(2)] show ?thesis by simp
  next
    case (TName n)
    with t have n: "n \<noteq> ''DateTimeOriginal''"
      by (auto simp: tag_get_def TAGS_def split: if_splits)
    with Cons.prems(2) have ds: "date_step L n v d = d"
      by (simp add: date_step_def)
    from Cons.prems(3) kv TName ds obtain g1 where "scan_exif L ex (g1, d) = Inr (g', d')"
      by (auto split: if_splits pyval.splits)
    with Cons.IH [OF rest Cons.prems(2)] show ?thesis by simp
  qed
qed

lemma original_date_wins:
  "distinct (map fst ex) \<Longrightarrow> (36867, v) \<in> set ex \<Longrightarrow> reformat_date L v = Some s \<Longrightarrow> s \<noteq> [] \<Longrightarrow>
   scan_exif L ex (g, d) = Inr (g', d') \<Longrightarrow> d' = Some s"
proof (induction ex arbitrary: g d)
  case Nil
  then show ?case by simp
next
  case (Cons kv ex)
  obtain tag w where kv: "kv = (tag, w)" by (cases kv)
  show ?case
  proof (cases "tag = 36867")
    case True
    with Cons.prems(1,2) kv have w: "w = v" and rest: "36867 \<notin> fst ` set ex"
      by (auto simp: image_iff)
    have "tag_get TAGS tag = TName ''DateTimeOriginal''"
      using True by (simp add: tag_get_def TAGS_def)
    with Cons.prems(3,5) kv w have "scan_exif L ex (g, Some s) = Inr (g', d')"
      by (simp add: date_step_def)
    with scan_exif_keeps_date [OF rest, of "Some s" L g g' d'] Cons.prems(4) show ?thesis
      by simp
  next
    case False
    with Cons.prems(2) kv have mem: "(36867, v) \<in> set ex" by auto
    from Cons.prems(1) have dist: "distinct (map fst ex)" by simp
    from Cons.prems(5) kv obtain g1 d1 where "scan_exif L ex (g1, d1) = Inr (g', d')"
      by (auto split: tagkey.splits if_splits pyval.splits)
    with Cons.IH [OF dist mem Cons.prems(3,4)] show ?thesis by blast
  qed
qed

text \<open>
  Claim C5, evaluated on \<open>digitized_first_image\<close>, whose tag table lists
  "DateTimeDigitized" (2020) before "DateTime" (2021) and has no "DateTimeOriginal".
  Both values parse; the date returned is the one of "DateTimeDigitized", the tag met
  first, and not the one of "DateTime".
\<close>

theorem digitized_before_datetime_wins:
  "reformat_date demo_lib (PStr ''2021:01:01 00:00:00'') = Some ''2021-01-01 00:00:00''
   \<and> getexif digitized_first_image =
       Inr (Some [(36868, PStr ''2020:01:01 00:00:00''), (306, PStr ''2021:01:01 00:00:00''),
                  (34853, PDict [(1, PStr ''N''), (2, dms 40 26 46), (3, PStr ''W''),
                                 (4, dms 79 58 56)])])
   \<and> get_gps_metadata demo_lib demo_fs ''/data/d.jpg'' =
       ([], Some \<lparr>latitude = Some (40 + 26 / 60 + 46 / 3600),
                  longitude = Some (- (79 + 58 / 60 + 56 / 3600)),
                  altitude = 0, orientation = PInt 0,
                  date_created = ''2020-01-01 00:00:00''\<rparr>)"
  by (simp add: demo_defs extractor_defs)

end
